theory Spec2Isabelle
  imports Main
begin

section \<open>JavaScript values\<close>

text \<open>
  The middleware handles values of type \<^verbatim>\<open>unknown\<close>: procedure inputs, procedure results
  and whatever the backend returns. They are modelled as finite trees. A number is
  \<^verbatim>\<open>NaN\<close>, an infinity or a finite number; finite numbers are restricted to the integers
  that JavaScript writes in plain decimal (\<^verbatim>\<open>-0\<close> is identified with \<^verbatim>\<open>0\<close>). An object carries what the code inspects: whether its
  prototype is \<^verbatim>\<open>Object.prototype\<close>, \<^verbatim>\<open>null\<close> or anything else (a class instance such as
  an \<^verbatim>\<open>Error\<close> or a \<^verbatim>\<open>Map\<close>), and its own enumerable string-keyed data properties in the
  order \<^verbatim>\<open>Object.entries\<close> lists them. A \<^verbatim>\<open>Date\<close> carries its ISO rendering, \<open>None\<close> for
  an invalid date. Accessor properties, proxies and objects with a \<^verbatim>\<open>toJSON\<close> method
  of their own are outside the model, and so are cyclic graphs, which have a heap model
  of their own below.
\<close>

datatype jsnum = NaN | PosInfinity | NegInfinity | Finite int

datatype proto = ObjectPrototype | NullPrototype | OtherPrototype

datatype jsval =
    JUndefined
  | JNull
  | JBool bool
  | JNum jsnum
  | JStr string
  | JBigInt int
  | JSymbol
  | JFunction
  | JDate "string option"
  | JArray "jsval list"
  | JObject proto "(string \<times> jsval) list"

datatype error = TypeError | SyntaxError | ZodError | Error string

text \<open>The truthiness test of \<^verbatim>\<open>if (x)\<close>, \<^verbatim>\<open>x ? a : b\<close> and \<^verbatim>\<open>x && y\<close>.\<close>

fun truthy :: "jsval \<Rightarrow> bool" where
  "truthy JUndefined = False"
| "truthy JNull = False"
| "truthy (JBool b) = b"
| "truthy (JNum n) = (n \<noteq> NaN \<and> n \<noteq> Finite 0)"
| "truthy (JStr s) = (s \<noteq> [])"
| "truthy (JBigInt i) = (i \<noteq> 0)"
| "truthy JSymbol = True"
| "truthy JFunction = True"
| "truthy (JDate d) = True"
| "truthy (JArray xs) = True"
| "truthy (JObject p props) = True"

section \<open>Serialization guard\<close>

text \<open>
  \<^verbatim>\<open>isSerializable\<close>: the tests of the source in their order: \<^verbatim>\<open>null\<close> and \<^verbatim>\<open>undefined\<close>;
  \<^verbatim>\<open>typeof\<close> number, string, boolean; \<^verbatim>\<open>instanceof Date\<close>; \<^verbatim>\<open>Array.isArray\<close> with
  \<^verbatim>\<open>every\<close>; \<^verbatim>\<open>typeof obj === 'object'\<close> with the prototype test and \<^verbatim>\<open>Object.values\<close>;
  everything else (bigint, symbol, function) is not serializable.
\<close>

fun isSerializable :: "jsval \<Rightarrow> bool" where
  "isSerializable JNull = True"
| "isSerializable JUndefined = True"
| "isSerializable (JNum n) = True"
| "isSerializable (JStr s) = True"
| "isSerializable (JBool b) = True"
| "isSerializable (JDate d) = True"
| "isSerializable (JArray xs) = list_all isSerializable xs"
| "isSerializable (JObject p props) =
     (if p \<noteq> NullPrototype \<and> p \<noteq> ObjectPrototype then False
      else list_all isSerializable (map snd props))"
| "isSerializable (JBigInt i) = False"
| "isSerializable JSymbol = False"
| "isSerializable JFunction = False"

text \<open>
  The assignment \<^verbatim>\<open>clean[key] = value\<close> on a record: an existing property keeps its place
  and takes the new value, a new one is appended. The key \<^verbatim>\<open>__proto__\<close>, which a plain
  record inherits as the accessor of its prototype, is outside the model.
\<close>

fun assign :: "(string \<times> jsval) list \<Rightarrow> string \<Rightarrow> jsval \<Rightarrow> (string \<times> jsval) list" where
  "assign [] key v = [(key, v)]"
| "assign ((k, w) # ps) key v = (if k = key then (k, v) # ps else (k, w) # assign ps key v)"

text \<open>
  \<^verbatim>\<open>sanitizeForCache\<close>. The \<^verbatim>\<open>for ... of Object.entries(obj)\<close> loop is \<open>sanitize_entries\<close>,
  with the record \<^verbatim>\<open>clean\<close> under construction as its accumulator. The last equation is
  the remaining values: none of them is a non-null object, so a non-serializable one gives
  \<^verbatim>\<open>null\<close>.
\<close>

fun sanitizeForCache :: "jsval \<Rightarrow> jsval"
  and sanitize_entries ::
    "(string \<times> jsval) list \<Rightarrow> (string \<times> jsval) list \<Rightarrow> (string \<times> jsval) list"
where
  "sanitizeForCache (JArray xs) =
     (if \<not> isSerializable (JArray xs) then JArray (map sanitizeForCache xs) else JArray xs)"
| "sanitizeForCache (JObject p props) =
     (if \<not> isSerializable (JObject p props)
      then JObject ObjectPrototype (sanitize_entries props [])
      else JObject p props)"
| "sanitizeForCache obj = (if \<not> isSerializable obj then JNull else obj)"
| "sanitize_entries [] clean = clean"
| "sanitize_entries ((key, v) # rest) clean =
     sanitize_entries rest
       (if isSerializable v then assign clean key v
        else assign clean key (sanitizeForCache v))"

section \<open>JSON text\<close>

text \<open>
  The pieces of \<^verbatim>\<open>JSON.stringify\<close> that both serializers below share: the decimal
  rendering of a number (\<^verbatim>\<open>NaN\<close> and the infinities render as \<^verbatim>\<open>null\<close>), the quoting of a
  string (\<^verbatim>\<open>QuoteJSONString\<close> of the language standard, on bytes) and the joining of
  members with commas.
\<close>

definition digit_char :: "nat \<Rightarrow> char" where
  "digit_char n = ''0123456789abcdef'' ! (n mod 16)"

fun digits :: "nat \<Rightarrow> string" where
  "digits n = (if n < 10 then [digit_char n] else digits (n div 10) @ [digit_char (n mod 10)])"

declare digits.simps [simp del]

fun number_to_json :: "jsnum \<Rightarrow> string" where
  "number_to_json NaN = ''null''"
| "number_to_json PosInfinity = ''null''"
| "number_to_json NegInfinity = ''null''"
| "number_to_json (Finite i) = (if i < 0 then CHR ''-'' # digits (nat (- i)) else digits (nat i))"

definition json_escape :: "char \<Rightarrow> string" where
  "json_escape c =
     (if c = CHR 0x08 then [CHR 0x5C, CHR ''b'']
      else if c = CHR 0x09 then [CHR 0x5C, CHR ''t'']
      else if c = CHR 0x0A then [CHR 0x5C, CHR ''n'']
      else if c = CHR 0x0C then [CHR 0x5C, CHR ''f'']
      else if c = CHR 0x0D then [CHR 0x5C, CHR ''r'']
      else if c = CHR 0x22 then [CHR 0x5C, CHR 0x22]
      else if c = CHR 0x5C then [CHR 0x5C, CHR 0x5C]
      else if (of_char c :: nat) < 32
        then [CHR 0x5C, CHR ''u'', CHR ''0'', CHR ''0'',
              digit_char (of_char c div 16), digit_char (of_char c mod 16)]
      else [c])"

definition QuoteJSONString :: "string \<Rightarrow> string" where
  "QuoteJSONString s = CHR 0x22 # concat (map json_escape s) @ [CHR 0x22]"

fun join :: "string list \<Rightarrow> string" where
  "join [] = []"
| "join [s] = s"
| "join (s # t # ss) = s @ '','' @ join (t # ss)"

text \<open>
  \<^verbatim>\<open>JSON.stringify(value)\<close> on a tree. The result is a string, \<^verbatim>\<open>undefined\<close> (\<open>None\<close>) for
  a value that has no JSON text at top level, or the \<^verbatim>\<open>TypeError\<close> that a bigint raises.
  An array element without JSON text is written \<^verbatim>\<open>null\<close>, a record member without JSON
  text is left out.
\<close>

fun JSON_stringify :: "jsval \<Rightarrow> error + string option"
  and stringify_elements :: "jsval list \<Rightarrow> error + string list"
  and stringify_members :: "(string \<times> jsval) list \<Rightarrow> error + string list"
where
  "JSON_stringify JUndefined = Inr None"
| "JSON_stringify JNull = Inr (Some ''null'')"
| "JSON_stringify (JBool b) = Inr (Some (if b then ''true'' else ''false''))"
| "JSON_stringify (JNum n) = Inr (Some (number_to_json n))"
| "JSON_stringify (JStr s) = Inr (Some (QuoteJSONString s))"
| "JSON_stringify (JBigInt i) = Inl TypeError"
| "JSON_stringify JSymbol = Inr None"
| "JSON_stringify JFunction = Inr None"
| "JSON_stringify (JDate d) =
     (case d of None \<Rightarrow> Inr (Some ''null'') | Some t \<Rightarrow> Inr (Some (QuoteJSONString t)))"
| "JSON_stringify (JArray xs) =
     (case stringify_elements xs of
        Inl e \<Rightarrow> Inl e
      | Inr ss \<Rightarrow> Inr (Some (''['' @ join ss @ '']'')))"
| "JSON_stringify (JObject p props) =
     (case stringify_members props of
        Inl e \<Rightarrow> Inl e
      | Inr ss \<Rightarrow> Inr (Some (''{'' @ join ss @ ''}'')))"
| "stringify_elements [] = Inr []"
| "stringify_elements (x # xs) =
     (case JSON_stringify x of
        Inl e \<Rightarrow> Inl e
      | Inr r \<Rightarrow>
          (case stringify_elements xs of
             Inl e \<Rightarrow> Inl e
           | Inr ss \<Rightarrow> Inr ((case r of None \<Rightarrow> ''null'' | Some s \<Rightarrow> s) # ss)))"
| "stringify_members [] = Inr []"
| "stringify_members ((k, v) # rest) =
     (case JSON_stringify v of
        Inl e \<Rightarrow> Inl e
      | Inr r \<Rightarrow>
          (case stringify_members rest of
             Inl e \<Rightarrow> Inl e
           | Inr ss \<Rightarrow>
               Inr ((case r of None \<Rightarrow> [] | Some s \<Rightarrow> [QuoteJSONString k @ '':'' @ s]) @ ss)))"

section \<open>Call context and configuration\<close>

text \<open>
  \<^verbatim>\<open>TRPCContext\<close>: a session that may be \<^verbatim>\<open>null\<close> or \<^verbatim>\<open>undefined\<close> (both \<open>None\<close>), with an
  optional user, with an optional id. \<open>userId_of\<close> is
  \<^verbatim>\<open>ctx.session?.user?.id ?? 'anonymous'\<close>: only a missing id gives the default, an empty
  string is an id.
\<close>

datatype User = User (user_id: "string option")

datatype Session = Session (session_user: "User option")

datatype TRPCContext = TRPCContext (ctx_session: "Session option")

definition userId_of :: "TRPCContext \<Rightarrow> string" where
  "userId_of ctx =
     (case ctx_session ctx of
        None \<Rightarrow> ''anonymous''
      | Some s \<Rightarrow>
          (case session_user s of
             None \<Rightarrow> ''anonymous''
           | Some u \<Rightarrow> (case user_id u of None \<Rightarrow> ''anonymous'' | Some i \<Rightarrow> i)))"

text \<open>
  \<^verbatim>\<open>CacheConfig\<close>. Every field is optional, so a field of the merged configuration may be
  \<^verbatim>\<open>undefined\<close> (\<open>None\<close>). The time to live is a whole number of seconds. A custom key
  function may throw.
\<close>

record CacheConfig =
  ttl :: "int option"
  useUpstash :: "bool option"
  userSpecific :: "bool option"
  globalCache :: "bool option"
  getCacheKey :: "(string \<Rightarrow> jsval \<Rightarrow> error + string) option"
  debug :: "bool option"
  redisUrl :: "string option"
  upstashConfig :: "(string \<times> string) option"

definition defaultCacheConfig :: CacheConfig where
  "defaultCacheConfig =
     \<lparr>ttl = Some 60, useUpstash = Some True, userSpecific = Some True,
      globalCache = Some False, getCacheKey = None, debug = Some False,
      redisUrl = None, upstashConfig = None\<rparr>"

text \<open>
  What the caller passes: each key is left out, or given with a value or with
  \<^verbatim>\<open>undefined\<close>. The object spread \<^verbatim>\<open>{...defaults, ...given}\<close> takes a key that is given,
  with \<^verbatim>\<open>undefined\<close> too, and keeps the default of a key that is left out.
\<close>

datatype 'a field = Omitted | Given "'a option"

fun spread :: "'a option \<Rightarrow> 'a field \<Rightarrow> 'a option" where
  "spread d Omitted = d"
| "spread d (Given x) = x"

record CacheConfigInput =
  in_ttl :: "int field"
  in_useUpstash :: "bool field"
  in_userSpecific :: "bool field"
  in_globalCache :: "bool field"
  in_getCacheKey :: "(string \<Rightarrow> jsval \<Rightarrow> error + string) field"
  in_debug :: "bool field"
  in_redisUrl :: "string field"
  in_upstashConfig :: "(string \<times> string) field"

definition no_config :: CacheConfigInput where
  "no_config =
     \<lparr>in_ttl = Omitted, in_useUpstash = Omitted, in_userSpecific = Omitted,
      in_globalCache = Omitted, in_getCacheKey = Omitted, in_debug = Omitted,
      in_redisUrl = Omitted, in_upstashConfig = Omitted\<rparr>"

text \<open>
  \<^verbatim>\<open>cacheConfigSchema.parse\<close>: the types of the fields are those of the record; what is
  left to check is \<^verbatim>\<open>ttl: z.number().positive().optional()\<close>. A key that is given stays
  given in the parsed object, a key that is left out stays out.
\<close>

definition cacheConfigSchema_parse :: "CacheConfigInput \<Rightarrow> error + CacheConfigInput" where
  "cacheConfigSchema_parse c =
     (case in_ttl c of
        Given (Some t) \<Rightarrow> (if 0 < t then Inr c else Inl ZodError)
      | _ \<Rightarrow> Inr c)"

text \<open>
  The first statement of \<^verbatim>\<open>createCacheMiddleware\<close>: the validated configuration that the
  returned middleware closes over; \<^verbatim>\<open>config ?? {}\<close> is \<open>no_config\<close> for a missing argument.
\<close>

definition validatedConfig :: "CacheConfigInput option \<Rightarrow> error + CacheConfig" where
  "validatedConfig config =
     (case cacheConfigSchema_parse (case config of None \<Rightarrow> no_config | Some c \<Rightarrow> c) of
        Inl e \<Rightarrow> Inl e
      | Inr c \<Rightarrow>
          Inr \<lparr>ttl = spread (ttl defaultCacheConfig) (in_ttl c),
               useUpstash = spread (useUpstash defaultCacheConfig) (in_useUpstash c),
               userSpecific = spread (userSpecific defaultCacheConfig) (in_userSpecific c),
               globalCache = spread (globalCache defaultCacheConfig) (in_globalCache c),
               getCacheKey = spread (getCacheKey defaultCacheConfig) (in_getCacheKey c),
               debug = spread (debug defaultCacheConfig) (in_debug c),
               redisUrl = spread (redisUrl defaultCacheConfig) (in_redisUrl c),
               upstashConfig = spread (upstashConfig defaultCacheConfig) (in_upstashConfig c)\<rparr>)"

section \<open>Key derivation\<close>

text \<open>
  \<^verbatim>\<open>input ? JSON.stringify(input) : ''\<close>, and the rendering of that constant inside a
  template literal, where \<^verbatim>\<open>undefined\<close> reads \<^verbatim>\<open>undefined\<close>.
\<close>

definition inputString :: "jsval \<Rightarrow> error + string option" where
  "inputString input = (if truthy input then JSON_stringify input else Inr (Some []))"

fun template :: "string option \<Rightarrow> string" where
  "template None = ''undefined''"
| "template (Some s) = s"

text \<open>A flag of the configuration in a condition: \<^verbatim>\<open>undefined\<close> and \<^verbatim>\<open>false\<close> are falsy.\<close>

fun flag :: "bool option \<Rightarrow> bool" where
  "flag None = False"
| "flag (Some b) = b"

definition createCacheKey ::
  "string \<Rightarrow> jsval \<Rightarrow> TRPCContext \<Rightarrow> CacheConfig \<Rightarrow> error + string" where
  "createCacheKey path input ctx config =
     (case getCacheKey config of
        Some customKey \<Rightarrow> customKey path input
      | None \<Rightarrow>
          (case inputString input of
             Inl e \<Rightarrow> Inl e
           | Inr s \<Rightarrow>
               (if flag (globalCache config)
                then Inr (''trpc:global:'' @ path @ '':'' @ template s)
                else let userId = userId_of ctx in
                  if flag (userSpecific config)
                  then Inr (''trpc:user:'' @ path @ '':'' @ userId @ '':'' @ template s)
                  else Inr (''trpc:'' @ path @ '':'' @ template s))))"

section \<open>Backends and the wrapped operation\<close>

text \<open>
  The two stores are external services; what is modelled is their contract, as the
  repository's test doubles have it: \<^verbatim>\<open>get\<close> returns what \<^verbatim>\<open>set\<close> stored under the key, or
  \<^verbatim>\<open>null\<close>, and \<^verbatim>\<open>del\<close> removes the key. The native store holds values, the string store
  holds strings; each entry records the expiry it was written with (\<open>None\<close>: no expiry).
  Expiry over time is not modelled. Four flags say which client calls throw: getting the
  client, \<^verbatim>\<open>get\<close>, \<^verbatim>\<open>set\<close>/\<^verbatim>\<open>setEx\<close> and \<^verbatim>\<open>del\<close>. \<open>calls\<close> counts the invocations of the
  wrapped operation. Log entries are not modelled.
\<close>

record world =
  upstash :: "string \<rightharpoonup> jsval \<times> int option"
  redis :: "string \<rightharpoonup> string \<times> int option"
  connect_fails :: bool
  get_fails :: bool
  set_fails :: bool
  del_fails :: bool
  calls :: nat

definition backend_error :: error where
  "backend_error = Error ''Redis connection failed''"

definition getClient :: "world \<Rightarrow> error + unit" where
  "getClient w = (if connect_fails w then Inl backend_error else Inr ())"

definition upstash_get :: "world \<Rightarrow> string \<Rightarrow> error + jsval" where
  "upstash_get w key =
     (if get_fails w then Inl backend_error
      else Inr (case upstash w key of None \<Rightarrow> JNull | Some (v, ex) \<Rightarrow> v))"

definition upstash_set :: "world \<Rightarrow> string \<Rightarrow> jsval \<Rightarrow> int option \<Rightarrow> error + world" where
  "upstash_set w key v ex =
     (if set_fails w then Inl backend_error
      else Inr (w\<lparr>upstash := (upstash w)(key \<mapsto> (v, ex))\<rparr>))"

definition upstash_del :: "world \<Rightarrow> string \<Rightarrow> error + world" where
  "upstash_del w key =
     (if del_fails w then Inl backend_error
      else Inr (w\<lparr>upstash := (upstash w)(key := None)\<rparr>))"

definition redis_get :: "world \<Rightarrow> string \<Rightarrow> error + jsval" where
  "redis_get w key =
     (if get_fails w then Inl backend_error
      else Inr (case redis w key of None \<Rightarrow> JNull | Some (s, ex) \<Rightarrow> JStr s))"

text \<open>
  \<^verbatim>\<open>set\<close> and \<^verbatim>\<open>setEx\<close> of the string store. The argument is the result of
  \<^verbatim>\<open>JSON.stringify\<close>, which may be \<^verbatim>\<open>undefined\<close>; the client rejects an argument that is not
  a string with a \<^verbatim>\<open>TypeError\<close>.
\<close>

definition redis_set :: "world \<Rightarrow> string \<Rightarrow> string option \<Rightarrow> int option \<Rightarrow> error + world" where
  "redis_set w key s ex =
     (if set_fails w then Inl backend_error
      else case s of
             None \<Rightarrow> Inl TypeError
           | Some t \<Rightarrow> Inr (w\<lparr>redis := (redis w)(key \<mapsto> (t, ex))\<rparr>))"

definition redis_del :: "world \<Rightarrow> string \<Rightarrow> error + world" where
  "redis_del w key =
     (if del_fails w then Inl backend_error
      else Inr (w\<lparr>redis := (redis w)(key := None)\<rparr>))"

text \<open>
  The wrapped operation \<^verbatim>\<open>next\<close> may be stateful: its outcome, a thrown error or a
  result, is a function of how many invocations came before.
\<close>

definition invoke :: "(nat \<Rightarrow> error + jsval) \<Rightarrow> world \<Rightarrow> (error + jsval) \<times> world" where
  "invoke next w = (next (calls w), w\<lparr>calls := Suc (calls w)\<rparr>)"

section \<open>The cache middleware\<close>

text \<open>
  The body of the \<^verbatim>\<open>try\<close> block, one function for each branch of
  \<^verbatim>\<open>if (validatedConfig.useUpstash)\<close>. \<open>Inl\<close> is an exception on its way to the
  \<^verbatim>\<open>catch\<close>. \<^verbatim>\<open>JSON.parse\<close> is a built-in whose result on the stored string is the
  parameter \<open>parse\<close>. The string store returns a string or \<^verbatim>\<open>null\<close>, so a truthy
  \<^verbatim>\<open>cachedData\<close> is a string and the other case of the hit branch does not arise.
\<close>

definition try_upstash ::
  "CacheConfig \<Rightarrow> (nat \<Rightarrow> error + jsval) \<Rightarrow> string \<Rightarrow> world \<Rightarrow> (error + jsval) \<times> world" where
  "try_upstash config next cacheKey w =
     (case getClient w of
        Inl e \<Rightarrow> (Inl e, w)
      | Inr upstashRedis \<Rightarrow>
          (case upstash_get w cacheKey of
             Inl e \<Rightarrow> (Inl e, w)
           | Inr cachedData \<Rightarrow>
               if truthy cachedData then (Inr cachedData, w)
               else
                 (case invoke next w of
                    (Inl e, w1) \<Rightarrow> (Inl e, w1)
                  | (Inr result, w1) \<Rightarrow>
                      let sanitizedResult = sanitizeForCache result in
                      (case
                         (case ttl config of
                            None \<Rightarrow> upstash_set w1 cacheKey sanitizedResult None
                          | Some t \<Rightarrow> upstash_set w1 cacheKey sanitizedResult (Some t))
                       of
                         Inl e \<Rightarrow> (Inl e, w1)
                       | Inr w2 \<Rightarrow> (Inr result, w2)))))"

definition try_redis ::
  "(string \<Rightarrow> error + jsval) \<Rightarrow> CacheConfig \<Rightarrow> (nat \<Rightarrow> error + jsval) \<Rightarrow> string \<Rightarrow> world
    \<Rightarrow> (error + jsval) \<times> world" where
  "try_redis parse config next cacheKey w =
     (case getClient w of
        Inl e \<Rightarrow> (Inl e, w)
      | Inr redisClient \<Rightarrow>
          (case redis_get w cacheKey of
             Inl e \<Rightarrow> (Inl e, w)
           | Inr cachedData \<Rightarrow>
               if truthy cachedData
               then (case cachedData of JStr s \<Rightarrow> (parse s, w) | _ \<Rightarrow> (Inl TypeError, w))
               else
                 (case invoke next w of
                    (Inl e, w1) \<Rightarrow> (Inl e, w1)
                  | (Inr result, w1) \<Rightarrow>
                      let sanitizedResult = sanitizeForCache result in
                      (case JSON_stringify sanitizedResult of
                         Inl e \<Rightarrow> (Inl e, w1)
                       | Inr text \<Rightarrow>
                           (case
                              (case ttl config of
                                 None \<Rightarrow> redis_set w1 cacheKey text None
                               | Some t \<Rightarrow> redis_set w1 cacheKey text (Some t))
                            of
                              Inl e \<Rightarrow> (Inl e, w1)
                            | Inr w2 \<Rightarrow> (Inr result, w2))))))"

text \<open>
  The middleware that \<^verbatim>\<open>createCacheMiddleware\<close> returns, for a validated configuration.
  The key is derived before the \<^verbatim>\<open>try\<close>, so an exception of the derivation leaves the
  function. The \<^verbatim>\<open>catch\<close> takes every exception of the \<^verbatim>\<open>try\<close> block, logs it and
  returns \<^verbatim>\<open>next()\<close>.
\<close>

definition middleware ::
  "(string \<Rightarrow> error + jsval) \<Rightarrow> CacheConfig \<Rightarrow> TRPCContext \<Rightarrow> string \<Rightarrow> (nat \<Rightarrow> error + jsval)
    \<Rightarrow> jsval \<Rightarrow> world \<Rightarrow> (error + jsval) \<times> world" where
  "middleware parse config ctx path next input w =
     (case createCacheKey path input ctx config of
        Inl e \<Rightarrow> (Inl e, w)
      | Inr cacheKey \<Rightarrow>
          (case
             (if flag (useUpstash config) then try_upstash config next cacheKey w
              else try_redis parse config next cacheKey w)
           of
             (Inr r, w') \<Rightarrow> (Inr r, w')
           | (Inl err, w') \<Rightarrow> invoke next w'))"

text \<open>
  \<^verbatim>\<open>createCacheMiddleware(config)\<close>: validation at construction, then the middleware.
\<close>

definition createCacheMiddleware ::
  "(string \<Rightarrow> error + jsval) \<Rightarrow> CacheConfigInput option
    \<Rightarrow> error + (TRPCContext \<Rightarrow> string \<Rightarrow> (nat \<Rightarrow> error + jsval) \<Rightarrow> jsval \<Rightarrow> world
          \<Rightarrow> (error + jsval) \<times> world)" where
  "createCacheMiddleware parse config =
     (case validatedConfig config of
        Inl e \<Rightarrow> Inl e
      | Inr c \<Rightarrow> Inr (middleware parse c))"

section \<open>Invalidation\<close>

record InvalidateOptions =
  opt_useUpstash :: "bool field"
  opt_globalCache :: "bool field"
  opt_userSpecific :: "bool field"
  opt_userId :: "string field"
  opt_redisUrl :: "string field"
  opt_upstashConfig :: "(string \<times> string) field"

definition no_options :: InvalidateOptions where
  "no_options =
     \<lparr>opt_useUpstash = Omitted, opt_globalCache = Omitted, opt_userSpecific = Omitted,
      opt_userId = Omitted, opt_redisUrl = Omitted, opt_upstashConfig = Omitted\<rparr>"

text \<open>
  \<^verbatim>\<open>{ ...defaultOptions, ...options }\<close>, as the configuration that \<^verbatim>\<open>createCacheKey\<close>
  reads: it has no custom key function and no time to live.
\<close>

definition invalidate_config :: "InvalidateOptions \<Rightarrow> CacheConfig" where
  "invalidate_config options =
     \<lparr>ttl = None,
      useUpstash = spread (Some True) (opt_useUpstash options),
      userSpecific = spread (Some True) (opt_userSpecific options),
      globalCache = spread (Some False) (opt_globalCache options),
      getCacheKey = None, debug = None,
      redisUrl = spread None (opt_redisUrl options),
      upstashConfig = spread None (opt_upstashConfig options)\<rparr>"

text \<open>
  \<^verbatim>\<open>session: config.userId ? { user: { id: config.userId } } : undefined\<close>: the test is
  truthiness, so an empty user id gives no session.
\<close>

definition mockCtx :: "InvalidateOptions \<Rightarrow> TRPCContext" where
  "mockCtx options =
     (case spread None (opt_userId options) of
        None \<Rightarrow> TRPCContext None
      | Some uid \<Rightarrow>
          if uid \<noteq> [] then TRPCContext (Some (Session (Some (User (Some uid)))))
          else TRPCContext None)"

text \<open>
  \<^verbatim>\<open>invalidateCache\<close>: the key is derived before the \<^verbatim>\<open>try\<close>; the \<^verbatim>\<open>catch\<close> logs and
  rethrows.
\<close>

definition invalidateCache ::
  "string \<Rightarrow> jsval \<Rightarrow> InvalidateOptions option \<Rightarrow> world \<Rightarrow> (error + unit) \<times> world" where
  "invalidateCache path input options w =
     (let opts = (case options of None \<Rightarrow> no_options | Some opts \<Rightarrow> opts);
          config = invalidate_config opts
      in case createCacheKey path input (mockCtx opts) config of
           Inl e \<Rightarrow> (Inl e, w)
         | Inr cacheKey \<Rightarrow>
             (case getClient w of
                Inl e \<Rightarrow> (Inl e, w)
              | Inr client \<Rightarrow>
                  (case
                     (if flag (useUpstash config) then upstash_del w cacheKey
                      else redis_del w cacheKey)
                   of
                     Inl e \<Rightarrow> (Inl e, w)
                   | Inr w' \<Rightarrow> (Inr (), w'))))"

section \<open>Object graphs and \<^verbatim>\<open>safeStringify\<close>\<close>

text \<open>
  \<^verbatim>\<open>safeStringify\<close> is about object identity, so its values live on a heap: a list of
  objects, \<open>HRef a\<close> being the object at index \<open>a\<close>. An object may refer to itself or to an
  ancestor. An object is an array, a record of own enumerable properties or a \<^verbatim>\<open>Date\<close>.
  A reference beyond the heap does not arise in a program; the serializer raises an error
  on it.
\<close>

datatype hval =
    HUndefined
  | HNull
  | HBool bool
  | HNum jsnum
  | HStr string
  | HBigInt int
  | HSymbol
  | HFunction
  | HRef nat





definition bracket ::
  "string \<Rightarrow> string \<Rightarrow> (error + string list \<times> 's) option \<Rightarrow> (error + string option \<times> 's) option" where
  "bracket l r res =
     (case res of
        None \<Rightarrow> None
      | Some (Inl e) \<Rightarrow> Some (Inl e)
      | Some (Inr (ss, st)) \<Rightarrow> Some (Inr (Some (l @ join ss @ r), st)))"







section \<open>Operations, parsers and worlds for the examples\<close>

text \<open>
  A wrapped operation with the same outcome at every invocation, and one whose first
  invocation has one outcome and every later invocation another.
\<close>

definition always :: "error + jsval \<Rightarrow> nat \<Rightarrow> error + jsval" where
  "always outcome i = outcome"

definition first_then :: "error + jsval \<Rightarrow> error + jsval \<Rightarrow> nat \<Rightarrow> error + jsval" where
  "first_then outcome later i = (if i = 0 then outcome else later)"

text \<open>
  A \<^verbatim>\<open>JSON.parse\<close> given by a table of the strings that an example stores; on any other
  string it raises the \<^verbatim>\<open>SyntaxError\<close> of a text that is not JSON.
\<close>

definition parse_table :: "(string \<times> jsval) list \<Rightarrow> string \<Rightarrow> error + jsval" where
  "parse_table t s = (case map_of t s of None \<Rightarrow> Inl SyntaxError | Some v \<Rightarrow> Inr v)"

text \<open>Both stores empty, every client call succeeds, the operation not yet invoked.\<close>

definition fresh_world :: world where
  "fresh_world =
     \<lparr>upstash = Map.empty, redis = Map.empty, connect_fails = False, get_fails = False,
      set_fails = False, del_fails = False, calls = 0\<rparr>"

text \<open>
  The result of \<^verbatim>\<open>createMockFailingNext\<close> of the test utilities: a failure-shaped
  middleware result, whose \<^verbatim>\<open>error\<close> is an instance of \<^verbatim>\<open>TRPCError\<close>.
\<close>

definition failed_result :: jsval where
  "failed_result =
     JObject ObjectPrototype
       [(''ok'', JBool False), (''marker'', JStr ''middlewareMarker''), (''data'', JNull),
        (''error'', JObject OtherPrototype
           [(''code'', JStr ''INTERNAL_SERVER_ERROR''), (''name'', JStr ''TRPCError'')])]"

section \<open>Properties of the serialization guard\<close>





section \<open>Properties of \<^verbatim>\<open>safeStringify\<close>\<close>


lemma bracket_None [simp]: "bracket l r res = None \<longleftrightarrow> res = None"
  by (auto simp: bracket_def split: option.splits sum.splits prod.splits)



















section \<open>Properties of the key derivation\<close>

lemma digits_nonempty: "digits n \<noteq> []"
  by (subst digits.simps) simp

lemma number_to_json_nonempty: "number_to_json n \<noteq> []"
  by (cases n) (simp_all add: digits_nonempty)

lemma JSON_stringify_nonempty: "JSON_stringify v = Inr (Some s) \<Longrightarrow> s \<noteq> []"
  using number_to_json_nonempty
  by (cases v) (auto simp: QuoteJSONString_def split: sum.splits option.splits if_splits)

text \<open>
  C6, as the specification states it, fails: the keys of the code begin with \<^verbatim>\<open>trpc:\<close>,
  not \<^verbatim>\<open>cache:\<close>, and the input string is empty for an input that is present but falsy,
  such as \<^verbatim>\<open>null\<close>, whose serialization is \<^verbatim>\<open>null\<close>.
\<close>

theorem createCacheKey_prefix_counterexample:
  "createCacheKey ''user.list'' JUndefined (TRPCContext None)
       (defaultCacheConfig\<lparr>globalCache := Some True\<rparr>)
     = Inr ''trpc:global:user.list:''
   \<and> createCacheKey ''user.list'' JUndefined (TRPCContext None)
       (defaultCacheConfig\<lparr>globalCache := Some True\<rparr>)
     \<noteq> Inr (''cache:global:'' @ ''user.list'' @ '':'' @ [])
   \<and> inputString JNull = Inr (Some [])
   \<and> JSON_stringify JNull = Inr (Some ''null'')"
  by (simp add: createCacheKey_def defaultCacheConfig_def inputString_def)

lemma userId_of_anonymous:
  "(\<And>i. ctx \<noteq> TRPCContext (Some (Session (Some (User (Some i)))))) \<Longrightarrow>
     userId_of ctx = ''anonymous''"
proof -
  assume a: "\<And>i. ctx \<noteq> TRPCContext (Some (Session (Some (User (Some i)))))"
  show ?thesis
  proof (cases ctx)
    case (TRPCContext so)
    show ?thesis
    proof (cases so)
      case None
      with TRPCContext show ?thesis by (simp add: userId_of_def)
    next
      case (Some s)
      obtain uo where s: "s = Session uo" by (cases s)
      show ?thesis
      proof (cases uo)
        case None
        with TRPCContext Some s show ?thesis by (simp add: userId_of_def)
      next
        case (Some u)
        obtain io where u: "u = User io" by (cases u)
        with a TRPCContext \<open>so = Some s\<close> s Some have "io = None" by (cases io) auto
        with TRPCContext \<open>so = Some s\<close> s Some u show ?thesis by (simp add: userId_of_def)
      qed
    qed
  qed
qed

lemma inputString_empty_iff:
  assumes "inputString input = Inr s"
  shows "template s = [] \<longleftrightarrow> \<not> truthy input"
proof (cases "truthy input")
  case True
  with assms have "JSON_stringify input = Inr s" by (simp add: inputString_def)
  then have "template s \<noteq> []"
    using JSON_stringify_nonempty [of input] by (cases s) auto
  with True show ?thesis by simp
next
  case False
  with assms show ?thesis by (auto simp: inputString_def)
qed

text \<open>
  C6, amended. Without a custom key function the key is \<^verbatim>\<open>trpc:global:\<close> route \<^verbatim>\<open>:\<close>
  inputString when \<^verbatim>\<open>globalCache\<close> is true; otherwise \<^verbatim>\<open>trpc:user:\<close> route \<^verbatim>\<open>:\<close> callerId
  \<^verbatim>\<open>:\<close> inputString when \<^verbatim>\<open>userSpecific\<close> is true; otherwise \<^verbatim>\<open>trpc:\<close> route \<^verbatim>\<open>:\<close>
  inputString. The input string is empty exactly when the input is falsy, and is
  \<^verbatim>\<open>JSON.stringify(input)\<close> otherwise (read as \<^verbatim>\<open>undefined\<close> when that is no text), whose
  exception is the exception of the derivation. The caller id is the id of the
  session's user, and \<^verbatim>\<open>anonymous\<close> when there is none.
\<close>

theorem createCacheKey_default_scheme:
  "getCacheKey config = None \<Longrightarrow>
     (\<forall>s. inputString input = Inr s \<longrightarrow>
        createCacheKey path input ctx config =
          Inr (if globalCache config = Some True
                 then ''trpc:global:'' @ path @ '':'' @ template s
               else if userSpecific config = Some True
                 then ''trpc:user:'' @ path @ '':'' @ userId_of ctx @ '':'' @ template s
               else ''trpc:'' @ path @ '':'' @ template s)
        \<and> (template s = [] \<longleftrightarrow> \<not> truthy input))
   \<and> (\<forall>e. inputString input = Inl e \<longrightarrow> createCacheKey path input ctx config = Inl e)
   \<and> (\<not> truthy input \<longrightarrow> inputString input = Inr (Some []))
   \<and> (truthy input \<longrightarrow> inputString input = JSON_stringify input)
   \<and> (userId_of (TRPCContext (Some (Session (Some (User (Some uid)))))) = uid)
   \<and> ((\<forall>i. ctx \<noteq> TRPCContext (Some (Session (Some (User (Some i)))))) \<longrightarrow>
        userId_of ctx = ''anonymous'')"
proof (intro conjI allI impI)
  fix s assume "getCacheKey config = None" "inputString input = Inr s"
  then show "createCacheKey path input ctx config =
          Inr (if globalCache config = Some True
                 then ''trpc:global:'' @ path @ '':'' @ template s
               else if userSpecific config = Some True
                 then ''trpc:user:'' @ path @ '':'' @ userId_of ctx @ '':'' @ template s
               else ''trpc:'' @ path @ '':'' @ template s)"
    by (cases "globalCache config"; cases "userSpecific config")
       (auto simp: createCacheKey_def Let_def)
next
  fix s assume "inputString input = Inr s"
  then show "template s = [] \<longleftrightarrow> \<not> truthy input" by (rule inputString_empty_iff)
next
  fix e assume "getCacheKey config = None" "inputString input = Inl e"
  then show "createCacheKey path input ctx config = Inl e" by (simp add: createCacheKey_def)
next
  assume "\<not> truthy input" then show "inputString input = Inr (Some [])"
    by (simp add: inputString_def)
next
  assume "truthy input" then show "inputString input = JSON_stringify input"
    by (simp add: inputString_def)
next
  show "userId_of (TRPCContext (Some (Session (Some (User (Some uid)))))) = uid"
    by (simp add: userId_of_def)
next
  assume "\<forall>i. ctx \<noteq> TRPCContext (Some (Session (Some (User (Some i)))))"
  then show "userId_of ctx = ''anonymous''" using userId_of_anonymous by blast
qed

text \<open>Witness for C6: an object input for an anonymous caller, and the input \<^verbatim>\<open>0\<close>.\<close>

theorem createCacheKey_default_scheme_witness:
  \<open>getCacheKey defaultCacheConfig = None
   \<and> inputString (JObject ObjectPrototype [(''id'', JNum (Finite 7))]) = Inr (Some ''{"id":7}'')
   \<and> createCacheKey ''user.get'' (JObject ObjectPrototype [(''id'', JNum (Finite 7))])
        (TRPCContext None) defaultCacheConfig
       = Inr ''trpc:user:user.get:anonymous:{"id":7}''
   \<and> \<not> truthy (JNum (Finite 0))
   \<and> inputString (JNum (Finite 0)) = Inr (Some [])\<close>
  using createCacheKey_default_scheme
    [of defaultCacheConfig "JObject ObjectPrototype [(''id'', JNum (Finite 7))]" "''user.get''"
        "TRPCContext None" "''u''"]
    createCacheKey_default_scheme
    [of defaultCacheConfig "JNum (Finite 0)" "''user.get''" "TRPCContext None" "''u''"]
  by (simp add: defaultCacheConfig_def inputString_def QuoteJSONString_def json_escape_def
        digits.simps digit_char_def userId_of_def)

section \<open>Properties of the middleware\<close>

text \<open>What one call does, case by case.\<close>

lemma middleware_key_error:
  "createCacheKey path input ctx config = Inl e \<Longrightarrow>
     middleware parse config ctx path next input w = (Inl e, w)"
  by (simp add: middleware_def)


lemma middleware_redis_hit:
  assumes "createCacheKey path input ctx config = Inr key" and "\<not> flag (useUpstash config)"
    and "getClient w = Inr ()" and "redis_get w key = Inr (JStr s)" and "s \<noteq> []"
  shows "middleware parse config ctx path next input w =
           (case parse s of Inr d \<Rightarrow> (Inr d, w) | Inl e \<Rightarrow> invoke next w)"
  using assms by (simp add: middleware_def try_redis_def split: sum.splits)

lemma middleware_no_client:
  assumes "createCacheKey path input ctx config = Inr key" and "getClient w = Inl e"
  shows "middleware parse config ctx path next input w = invoke next w"
  using assms by (simp add: middleware_def try_upstash_def try_redis_def)

lemma middleware_get_fails:
  assumes "createCacheKey path input ctx config = Inr key" and "get_fails w"
  shows "middleware parse config ctx path next input w = invoke next w"
  using assms
  by (simp add: middleware_def try_upstash_def try_redis_def upstash_get_def redis_get_def
      split: sum.splits)

lemma middleware_upstash_miss:
  assumes "createCacheKey path input ctx config = Inr key" and "flag (useUpstash config)"
    and "getClient w = Inr ()" and "upstash_get w key = Inr d" and "\<not> truthy d"
  shows "middleware parse config ctx path next input w =
           (case next (calls w) of
              Inl e \<Rightarrow> invoke next (snd (invoke next w))
            | Inr result \<Rightarrow>
                if set_fails w then invoke next (snd (invoke next w))
                else (Inr result,
                      w\<lparr>calls := Suc (calls w),
                        upstash := (upstash w)(key \<mapsto> (sanitizeForCache result, ttl config))\<rparr>))"
  using assms
  by (auto simp: middleware_def try_upstash_def invoke_def upstash_set_def Let_def
      split: sum.splits option.splits)

lemma middleware_redis_miss:
  assumes "createCacheKey path input ctx config = Inr key" and "\<not> flag (useUpstash config)"
    and "getClient w = Inr ()" and "redis_get w key = Inr d" and "\<not> truthy d"
  shows "middleware parse config ctx path next input w =
           (case next (calls w) of
              Inl e \<Rightarrow> invoke next (snd (invoke next w))
            | Inr result \<Rightarrow>
                (case JSON_stringify (sanitizeForCache result) of
                   Inr (Some s) \<Rightarrow>
                     if set_fails w then invoke next (snd (invoke next w))
                     else (Inr result,
                           w\<lparr>calls := Suc (calls w),
                             redis := (redis w)(key \<mapsto> (s, ttl config))\<rparr>)
                 | _ \<Rightarrow> invoke next (snd (invoke next w))))"
  using assms
  by (auto simp: middleware_def try_redis_def invoke_def redis_set_def Let_def
      split: sum.splits option.splits)





lemma middleware_outcome:
  assumes "createCacheKey path input ctx config = Inr key"
  shows "(\<exists>d. middleware parse config ctx path nxt input w = (Inr d, w))
       \<or> (\<exists>r w'. middleware parse config ctx path nxt input w = (Inr r, w') \<and> nxt (calls w) = Inr r
             \<and> calls w' = Suc (calls w))
       \<or> middleware parse config ctx path nxt input w = invoke nxt w
       \<or> middleware parse config ctx path nxt input w = invoke nxt (snd (invoke nxt w))"
proof (cases "flag (useUpstash config)")
  case True
  with assms show ?thesis
    by (auto simp: middleware_def try_upstash_def invoke_def upstash_set_def Let_def
        split: sum.splits option.splits)
next
  case False
  with assms show ?thesis
    by (auto simp: middleware_def try_redis_def invoke_def redis_set_def redis_get_def Let_def
        split: sum.splits option.splits if_splits)
qed

lemma middleware_no_exception:
  assumes k: "createCacheKey path input ctx config = Inr key"
    and ok: "\<forall>i. \<exists>v. nxt i = Inr v"
  shows "\<exists>v. fst (middleware parse config ctx path nxt input w) = Inr v"
  using middleware_outcome [OF k, of parse nxt w] ok
  by (auto simp: invoke_def)

text \<open>
  C4, as the specification states it, fails for the derivation of the key, which is
  outside the \<^verbatim>\<open>try\<close> block: an input that holds a bigint makes \<^verbatim>\<open>JSON.stringify\<close> throw,
  the \<^verbatim>\<open>TypeError\<close> reaches the caller and the wrapped operation is not invoked.
\<close>

theorem key_derivation_error_propagates:
  "middleware (parse_table []) defaultCacheConfig (TRPCContext None) ''user.get''
     (always (Inr (JStr ''Ada''))) (JObject ObjectPrototype [(''id'', JBigInt 1)]) fresh_world
   = (Inl TypeError, fresh_world)"
  by (simp add: middleware_def createCacheKey_def defaultCacheConfig_def inputString_def)

text \<open>
  C4, amended. An exception of the key derivation leaves the middleware. With the key
  derived, an exception raised while getting the client, reading the cache (also while
  parsing what the string store returned) or writing the cache is caught: the middleware
  invokes the wrapped operation, again when the write failed after the operation had run,
  and returns the outcome of that invocation. So when the operation does not throw, the
  middleware does not throw.
\<close>

theorem cache_failure_falls_through:
  "(createCacheKey path input ctx config = Inl e \<longrightarrow>
      middleware parse config ctx path nxt input w = (Inl e, w))
   \<and> (createCacheKey path input ctx config = Inr key \<longrightarrow>
        (getClient w = Inl e' \<or> get_fails w \<longrightarrow>
           middleware parse config ctx path nxt input w = invoke nxt w)
      \<and> (\<not> flag (useUpstash config) \<and> getClient w = Inr () \<and> redis_get w key = Inr (JStr s)
           \<and> s \<noteq> [] \<and> parse s = Inl e' \<longrightarrow>
           middleware parse config ctx path nxt input w = invoke nxt w)
      \<and> (getClient w = Inr () \<and> set_fails w \<and> nxt (calls w) = Inr result
           \<and> (if flag (useUpstash config) then upstash_get w key else redis_get w key) = Inr d
           \<and> \<not> truthy d \<longrightarrow>
           middleware parse config ctx path nxt input w = invoke nxt (snd (invoke nxt w)))
      \<and> ((\<forall>i. \<exists>v. nxt i = Inr v) \<longrightarrow>
           (\<exists>v. fst (middleware parse config ctx path nxt input w) = Inr v)))"
proof (intro conjI impI)
  assume "createCacheKey path input ctx config = Inl e"
  then show "middleware parse config ctx path nxt input w = (Inl e, w)"
    by (rule middleware_key_error)
next
  assume k: "createCacheKey path input ctx config = Inr key"
    and "getClient w = Inl e' \<or> get_fails w"
  then show "middleware parse config ctx path nxt input w = invoke nxt w"
    using middleware_no_client [OF k] middleware_get_fails [OF k] by blast
next
  assume k: "createCacheKey path input ctx config = Inr key"
    and "\<not> flag (useUpstash config) \<and> getClient w = Inr () \<and> redis_get w key = Inr (JStr s)
           \<and> s \<noteq> [] \<and> parse s = Inl e'"
  then show "middleware parse config ctx path nxt input w = invoke nxt w"
    using middleware_redis_hit [OF k, of w s parse nxt] by simp
next
  assume k: "createCacheKey path input ctx config = Inr key"
    and a: "getClient w = Inr () \<and> set_fails w \<and> nxt (calls w) = Inr result
           \<and> (if flag (useUpstash config) then upstash_get w key else redis_get w key) = Inr d
           \<and> \<not> truthy d"
  show "middleware parse config ctx path nxt input w = invoke nxt (snd (invoke nxt w))"
  proof (cases "flag (useUpstash config)")
    case True
    with a middleware_upstash_miss [OF k True, of w d parse nxt] show ?thesis by simp
  next
    case False
    with a middleware_redis_miss [OF k False, of w d parse nxt] show ?thesis
      by (simp split: sum.splits option.splits)
  qed
next
  assume k: "createCacheKey path input ctx config = Inr key" and "\<forall>i. \<exists>v. nxt i = Inr v"
  then show "\<exists>v. fst (middleware parse config ctx path nxt input w) = Inr v"
    by (rule middleware_no_exception)
qed

text \<open>
  Witness for C4: a store whose \<^verbatim>\<open>get\<close> throws, and the key derivation that throws on a
  bigint.
\<close>

theorem cache_failure_falls_through_witness:
  "createCacheKey ''user.get'' JUndefined (TRPCContext None) defaultCacheConfig
     = Inr ''trpc:user:user.get:anonymous:''
   \<and> get_fails (fresh_world\<lparr>get_fails := True\<rparr>)
   \<and> middleware (parse_table []) defaultCacheConfig (TRPCContext None) ''user.get''
        (always (Inr (JStr ''Ada''))) JUndefined (fresh_world\<lparr>get_fails := True\<rparr>)
     = (Inr (JStr ''Ada''), fresh_world\<lparr>get_fails := True, calls := 1\<rparr>)
   \<and> createCacheKey ''user.get'' (JBigInt 1) (TRPCContext None) defaultCacheConfig = Inl TypeError
   \<and> fst (middleware (parse_table []) defaultCacheConfig (TRPCContext None) ''user.get''
        (always (Inr (JStr ''Ada''))) (JBigInt 1) fresh_world) = Inl TypeError"
  using cache_failure_falls_through
    [where path = "''user.get''" and input = JUndefined and ctx = "TRPCContext None"
       and config = defaultCacheConfig and key = "''trpc:user:user.get:anonymous:''"
       and w = "fresh_world\<lparr>get_fails := True\<rparr>" and parse = "parse_table []"
       and nxt = "always (Inr (JStr ''Ada''))" and e' = backend_error]
    cache_failure_falls_through
    [where path = "''user.get''" and input = "JBigInt 1" and ctx = "TRPCContext None"
       and config = defaultCacheConfig and e = TypeError
       and w = fresh_world and parse = "parse_table []"
       and nxt = "always (Inr (JStr ''Ada''))"]
  by (simp add: createCacheKey_def defaultCacheConfig_def inputString_def userId_of_def
        fresh_world_def always_def invoke_def)

text \<open>
  C1 at the input of the repository's own tests (\<^verbatim>\<open>should not cache failed procedure
  results\<close>): the wrapped operation returns a failure-shaped result. The middleware has
  no test of \<^verbatim>\<open>ok\<close>: it sanitizes the result and writes it to the store, and the second
  call is served the stored failure without invoking the operation, where the tests
  expect two invocations and an empty store.
\<close>

theorem failure_shaped_result_is_cached:
  \<open>middleware (parse_table []) defaultCacheConfig
     (TRPCContext (Some (Session (Some (User (Some ''user-1'')))))) ''test.procedure''
     (always (Inr failed_result)) (JObject ObjectPrototype [(''query'', JStr ''test'')])
     fresh_world
   = (Inr failed_result,
      fresh_world\<lparr>calls := 1,
        upstash := [''trpc:user:test.procedure:user-1:{"query":"test"}'' \<mapsto>
          (JObject ObjectPrototype
             [(''ok'', JBool False), (''marker'', JStr ''middlewareMarker''), (''data'', JNull),
              (''error'', JObject ObjectPrototype
                 [(''code'', JStr ''INTERNAL_SERVER_ERROR''), (''name'', JStr ''TRPCError'')])],
           Some 60)]\<rparr>)
   \<and> middleware (parse_table []) defaultCacheConfig
       (TRPCContext (Some (Session (Some (User (Some ''user-1'')))))) ''test.procedure''
       (always (Inr failed_result)) (JObject ObjectPrototype [(''query'', JStr ''test'')])
       (snd (middleware (parse_table []) defaultCacheConfig
          (TRPCContext (Some (Session (Some (User (Some ''user-1'')))))) ''test.procedure''
          (always (Inr failed_result)) (JObject ObjectPrototype [(''query'', JStr ''test'')])
          fresh_world))
     = (Inr (JObject ObjectPrototype
             [(''ok'', JBool False), (''marker'', JStr ''middlewareMarker''), (''data'', JNull),
              (''error'', JObject ObjectPrototype
                 [(''code'', JStr ''INTERNAL_SERVER_ERROR''), (''name'', JStr ''TRPCError'')])]),
        fresh_world\<lparr>calls := 1,
        upstash := [''trpc:user:test.procedure:user-1:{"query":"test"}'' \<mapsto>
          (JObject ObjectPrototype
             [(''ok'', JBool False), (''marker'', JStr ''middlewareMarker''), (''data'', JNull),
              (''error'', JObject ObjectPrototype
                 [(''code'', JStr ''INTERNAL_SERVER_ERROR''), (''name'', JStr ''TRPCError'')])],
           Some 60)]\<rparr>)\<close>
  by (simp add: middleware_def createCacheKey_def defaultCacheConfig_def inputString_def
        userId_of_def QuoteJSONString_def json_escape_def try_upstash_def getClient_def
        upstash_get_def upstash_set_def invoke_def always_def fresh_world_def
        failed_result_def)

text \<open>
  C3 at a wrapped operation that throws after a cache miss: the call of \<^verbatim>\<open>next\<close> is inside
  the \<^verbatim>\<open>try\<close> block, so the \<^verbatim>\<open>catch\<close> that is meant for cache errors takes the exception and
  invokes the operation a second time. When the second invocation succeeds the caller
  never sees the failure; when it throws too, the operation has run twice.
\<close>

theorem thrown_failure_is_retried:
  "middleware (parse_table []) defaultCacheConfig (TRPCContext None) ''test.procedure''
     (first_then (Inl (Error ''Test error'')) (Inr (JStr ''late''))) JUndefined fresh_world
   = (Inr (JStr ''late''), fresh_world\<lparr>calls := 2\<rparr>)
   \<and> middleware (parse_table []) defaultCacheConfig (TRPCContext None) ''test.procedure''
     (always (Inl (Error ''Test error''))) JUndefined fresh_world
   = (Inl (Error ''Test error''), fresh_world\<lparr>calls := 2\<rparr>)"
  by (simp add: middleware_def createCacheKey_def defaultCacheConfig_def inputString_def
        userId_of_def try_upstash_def getClient_def upstash_get_def invoke_def always_def
        first_then_def fresh_world_def)

text \<open>In both cases nothing is written when the first invocation throws.\<close>

lemma thrown_failure_writes_nothing:
  assumes "createCacheKey path input ctx config = Inr key" and "getClient w = Inr ()"
    and "(if flag (useUpstash config) then upstash_get w key else redis_get w key) = Inr d"
    and "\<not> truthy d" and "nxt (calls w) = Inl e"
  shows "middleware parse config ctx path nxt input w = invoke nxt (snd (invoke nxt w))"
    and "upstash (snd (middleware parse config ctx path nxt input w)) = upstash w"
    and "redis (snd (middleware parse config ctx path nxt input w)) = redis w"
    and "calls (snd (middleware parse config ctx path nxt input w)) = calls w + 2"
proof -
  show m: "middleware parse config ctx path nxt input w = invoke nxt (snd (invoke nxt w))"
  proof (cases "flag (useUpstash config)")
    case True
    with assms middleware_upstash_miss [OF assms(1) True, of w d parse nxt] show ?thesis by simp
  next
    case False
    with assms middleware_redis_miss [OF assms(1) False, of w d parse nxt] show ?thesis by simp
  qed
  show "upstash (snd (middleware parse config ctx path nxt input w)) = upstash w"
    "redis (snd (middleware parse config ctx path nxt input w)) = redis w"
    "calls (snd (middleware parse config ctx path nxt input w)) = calls w + 2"
    by (simp_all add: m invoke_def)
qed





text \<open>
  C5, as the specification states it, fails: a configuration that does not specify a
  time to live, or no configuration at all, takes the default of 60 seconds, and the
  entry is written with that expiry.
\<close>

theorem omitted_ttl_expires:
  "validatedConfig None = Inr defaultCacheConfig
   \<and> validatedConfig (Some no_config) = Inr defaultCacheConfig
   \<and> in_ttl no_config = Omitted
   \<and> createCacheMiddleware (parse_table []) None
        = Inr (middleware (parse_table []) defaultCacheConfig)
   \<and> upstash
        (snd (middleware (parse_table []) defaultCacheConfig (TRPCContext None) ''user.get''
                (always (Inr (JStr ''Ada''))) JUndefined fresh_world))
        ''trpc:user:user.get:anonymous:''
      = Some (JStr ''Ada'', Some 60)"
  by (simp add: createCacheMiddleware_def validatedConfig_def cacheConfigSchema_parse_def no_config_def
        defaultCacheConfig_def middleware_def createCacheKey_def inputString_def userId_of_def
        try_upstash_def getClient_def upstash_get_def upstash_set_def invoke_def always_def
        fresh_world_def)

lemma validatedConfig_ttl:
  assumes "validatedConfig (Some c) = Inr config"
  shows "ttl config = spread (Some 60) (in_ttl c)"
  using assms
  by (auto simp: validatedConfig_def defaultCacheConfig_def cacheConfigSchema_parse_def
      split: sum.splits field.splits option.splits if_splits)

text \<open>
  C5, amended. The validated time to live is \<^verbatim>\<open>undefined\<close> exactly when the configuration
  gives \<^verbatim>\<open>ttl: undefined\<close>; a configuration that leaves \<^verbatim>\<open>ttl\<close> out has 60 seconds. On a
  miss a successful result is written with the validated time to live as its expiry: with
  no expiry when it is \<^verbatim>\<open>undefined\<close>.
\<close>

theorem ttl_of_written_entry:
  "validatedConfig (Some c) = Inr config \<Longrightarrow> createCacheKey path input ctx config = Inr key \<Longrightarrow>
   getClient w = Inr () \<Longrightarrow> \<not> set_fails w \<Longrightarrow> nxt (calls w) = Inr result \<Longrightarrow>
     (ttl config = None \<longleftrightarrow> in_ttl c = Given None)
   \<and> (in_ttl c = Omitted \<longrightarrow> ttl config = Some 60)
   \<and> (flag (useUpstash config) \<and> upstash_get w key = Inr d \<and> \<not> truthy d \<longrightarrow>
        upstash (snd (middleware parse config ctx path nxt input w)) key
          = Some (sanitizeForCache result, ttl config))
   \<and> (\<not> flag (useUpstash config) \<and> redis_get w key = Inr d \<and> \<not> truthy d
        \<and> JSON_stringify (sanitizeForCache result) = Inr (Some s) \<longrightarrow>
        redis (snd (middleware parse config ctx path nxt input w)) key = Some (s, ttl config))"
proof (intro conjI impI)
  assume v: "validatedConfig (Some c) = Inr config"
  show "ttl config = None \<longleftrightarrow> in_ttl c = Given None"
    using validatedConfig_ttl [OF v] by (cases "in_ttl c") auto
  assume "in_ttl c = Omitted"
  then show "ttl config = Some 60" using validatedConfig_ttl [OF v] by simp
next
  assume k: "createCacheKey path input ctx config = Inr key" and g: "getClient w = Inr ()"
    and f: "\<not> set_fails w" and r: "nxt (calls w) = Inr result"
    and a: "flag (useUpstash config) \<and> upstash_get w key = Inr d \<and> \<not> truthy d"
  show "upstash (snd (middleware parse config ctx path nxt input w)) key
          = Some (sanitizeForCache result, ttl config)"
    using middleware_upstash_miss [OF k _ g, of d parse nxt] a f r by simp
next
  assume k: "createCacheKey path input ctx config = Inr key" and g: "getClient w = Inr ()"
    and f: "\<not> set_fails w" and r: "nxt (calls w) = Inr result"
    and a: "\<not> flag (useUpstash config) \<and> redis_get w key = Inr d \<and> \<not> truthy d
        \<and> JSON_stringify (sanitizeForCache result) = Inr (Some s)"
  show "redis (snd (middleware parse config ctx path nxt input w)) key = Some (s, ttl config)"
    using middleware_redis_miss [OF k _ g, of d parse nxt] a f r by simp
qed

text \<open>Witness for C5: \<^verbatim>\<open>ttl: undefined\<close> on the native store.\<close>

theorem ttl_of_written_entry_witness:
  "validatedConfig (Some (no_config\<lparr>in_ttl := Given None\<rparr>)) = Inr (defaultCacheConfig\<lparr>ttl := None\<rparr>)
   \<and> createCacheKey ''user.get'' JUndefined (TRPCContext None) (defaultCacheConfig\<lparr>ttl := None\<rparr>)
       = Inr ''trpc:user:user.get:anonymous:''
   \<and> getClient fresh_world = Inr () \<and> \<not> set_fails fresh_world
   \<and> always (Inr (JStr ''Ada'')) (calls fresh_world) = Inr (JStr ''Ada'')
   \<and> upstash_get fresh_world ''trpc:user:user.get:anonymous:'' = Inr JNull
   \<and> upstash
        (snd (middleware (parse_table []) (defaultCacheConfig\<lparr>ttl := None\<rparr>) (TRPCContext None)
                ''user.get'' (always (Inr (JStr ''Ada''))) JUndefined fresh_world))
        ''trpc:user:user.get:anonymous:''
      = Some (JStr ''Ada'', None)"
  using ttl_of_written_entry
    [where c = "no_config\<lparr>in_ttl := Given None\<rparr>" and config = "defaultCacheConfig\<lparr>ttl := None\<rparr>"
       and path = "''user.get''" and input = JUndefined and ctx = "TRPCContext None"
       and key = "''trpc:user:user.get:anonymous:''" and w = fresh_world
       and nxt = "always (Inr (JStr ''Ada''))" and result = "JStr ''Ada''" and d = JNull
       and parse = "parse_table []"]
  by (simp add: validatedConfig_def cacheConfigSchema_parse_def no_config_def
        defaultCacheConfig_def createCacheKey_def inputString_def userId_of_def
        getClient_def upstash_get_def always_def fresh_world_def)

text \<open>
  C7 at a caller whose id is the empty string. The middleware keeps the empty id
  (\<^verbatim>\<open>??\<close> replaces only a missing id), \<^verbatim>\<open>invalidateCache\<close> tests the id for truthiness and
  builds no session, so it derives the key of the anonymous caller: the deletion
  succeeds, the entry stays, and the next call is served from the cache.
\<close>

theorem invalidateCache_misses_empty_user_id:
  "createCacheKey ''user.get'' JUndefined
       (TRPCContext (Some (Session (Some (User (Some [])))))) defaultCacheConfig
     = Inr ''trpc:user:user.get::''
   \<and> createCacheKey ''user.get'' JUndefined
       (mockCtx (no_options\<lparr>opt_userId := Given (Some [])\<rparr>))
       (invalidate_config (no_options\<lparr>opt_userId := Given (Some [])\<rparr>))
     = Inr ''trpc:user:user.get:anonymous:''
   \<and> fst (invalidateCache ''user.get'' JUndefined
            (Some (no_options\<lparr>opt_userId := Given (Some [])\<rparr>))
            (snd (middleware (parse_table []) defaultCacheConfig
                    (TRPCContext (Some (Session (Some (User (Some [])))))) ''user.get''
                    (always (Inr (JStr ''Ada''))) JUndefined fresh_world)))
     = Inr ()
   \<and> upstash
        (snd (invalidateCache ''user.get'' JUndefined
            (Some (no_options\<lparr>opt_userId := Given (Some [])\<rparr>))
            (snd (middleware (parse_table []) defaultCacheConfig
                    (TRPCContext (Some (Session (Some (User (Some [])))))) ''user.get''
                    (always (Inr (JStr ''Ada''))) JUndefined fresh_world))))
        ''trpc:user:user.get::''
     = Some (JStr ''Ada'', Some 60)
   \<and> calls
        (snd (middleware (parse_table []) defaultCacheConfig
                (TRPCContext (Some (Session (Some (User (Some [])))))) ''user.get''
                (always (Inr (JStr ''Ada''))) JUndefined
        (snd (invalidateCache ''user.get'' JUndefined
            (Some (no_options\<lparr>opt_userId := Given (Some [])\<rparr>))
            (snd (middleware (parse_table []) defaultCacheConfig
                    (TRPCContext (Some (Session (Some (User (Some [])))))) ''user.get''
                    (always (Inr (JStr ''Ada''))) JUndefined fresh_world))))))
     = 1"
  by (simp add: middleware_def createCacheKey_def defaultCacheConfig_def inputString_def
        userId_of_def try_upstash_def getClient_def upstash_get_def upstash_set_def
        upstash_del_def invoke_def always_def fresh_world_def invalidateCache_def
        invalidate_config_def mockCtx_def no_options_def Let_def)

text \<open>
  For every other caller identity the synthetic context gives the same caller id, the
  same flags give the same key, and after the deletion the lookup of that key misses.
\<close>

lemma mockCtx_userId:
  "spread None (opt_userId opts) = None \<Longrightarrow> userId_of (mockCtx opts) = ''anonymous''"
  "spread None (opt_userId opts) = Some uid \<Longrightarrow> uid \<noteq> [] \<Longrightarrow> userId_of (mockCtx opts) = uid"
  "spread None (opt_userId opts) = Some [] \<Longrightarrow> userId_of (mockCtx opts) = ''anonymous''"
  by (simp_all add: mockCtx_def userId_of_def)

lemma invalidateCache_same_key:
  assumes "getCacheKey config = None"
    and "globalCache config = spread (Some False) (opt_globalCache opts)"
    and "userSpecific config = spread (Some True) (opt_userSpecific opts)"
    and "userId_of ctx = userId_of (mockCtx opts)"
  shows "createCacheKey path input (mockCtx opts) (invalidate_config opts) =
         createCacheKey path input ctx config"
  using assms
  by (cases "inputString input") (simp_all add: createCacheKey_def invalidate_config_def Let_def)

lemma invalidateCache_then_miss:
  assumes "createCacheKey path input (mockCtx opts) (invalidate_config opts) = Inr key"
    and "getClient w = Inr ()" and "\<not> del_fails w" and "\<not> get_fails w"
  shows "invalidateCache path input (Some opts) w =
           (Inr (), if flag (useUpstash (invalidate_config opts))
                    then w\<lparr>upstash := (upstash w)(key := None)\<rparr>
                    else w\<lparr>redis := (redis w)(key := None)\<rparr>)"
    and "flag (useUpstash (invalidate_config opts)) \<Longrightarrow>
           upstash_get (snd (invalidateCache path input (Some opts) w)) key = Inr JNull"
    and "\<not> flag (useUpstash (invalidate_config opts)) \<Longrightarrow>
           redis_get (snd (invalidateCache path input (Some opts) w)) key = Inr JNull"
  using assms
  by (simp_all add: invalidateCache_def Let_def upstash_del_def redis_del_def upstash_get_def
        redis_get_def)

end
